theory Spec2Isabelle
  imports Main
begin

section \<open>API objects\<close>

text \<open>
  The build controllers of \<^verbatim>\<open>pkg/build/controller/controller.go\<close> read and write a
  handful of fields of the build, pod and image stream objects. Each Go struct is a
  record with the fields the controllers touch; a pointer field that may be nil is an
  option. Field names that occur in more than one Go struct carry a prefix
  (\<open>pod_Name\<close> for \<^verbatim>\<open>pod.Name\<close>, \<open>ref_Name\<close> for \<^verbatim>\<open>ref.Name\<close>).
\<close>

datatype BuildStatus =
    BuildStatusNew
  | BuildStatusPending
  | BuildStatusRunning
  | BuildStatusComplete
  | BuildStatusFailed
  | BuildStatusError
  | BuildStatusCancelled

datatype PodPhase = PodPending | PodRunning | PodSucceeded | PodFailed | PodUnknown

type_synonym Time = nat

record ObjectReference =
  ref_Namespace :: string
  ref_Name :: string

record BuildOutput =
  To :: "ObjectReference option"
  Tag :: string
  DockerImageReference :: string

record BuildParameters =
  Output :: BuildOutput

record Build =
  Name :: string
  Namespace :: string
  Parameters :: BuildParameters
  Status :: BuildStatus
  Message :: string
  Cancelled :: bool
  StartTimestamp :: "Time option"
  CompletionTimestamp :: "Time option"

record ContainerStateTerminated =
  ExitCode :: int

record ContainerState =
  Termination :: "ContainerStateTerminated option"

record ContainerStatus =
  State :: ContainerState

record PodStatus =
  Phase :: PodPhase
  ContainerStatuses :: "ContainerStatus list"

record Pod =
  pod_Name :: string
  pod_Namespace :: string
  Labels :: "string \<rightharpoonup> string"
  pod_Status :: PodStatus

record ImageStreamStatus =
  DockerImageRepository :: string

record ImageStream =
  is_Status :: ImageStreamStatus

section \<open>Errors\<close>

text \<open>
  A Go \<^verbatim>\<open>error\<close> is a value with a message; the API errors of Kubernetes carry a
  reason that \<^verbatim>\<open>errors.IsNotFound\<close> and \<^verbatim>\<open>errors.IsAlreadyExists\<close> test. An error made
  by \<^verbatim>\<open>fmt.Errorf\<close> is a plain error: neither test holds of it. A function that returns
  \<^verbatim>\<open>error\<close> returns an \<open>error option\<close> here, \<open>None\<close> for nil.
\<close>

datatype StatusReason = StatusReasonNotFound | StatusReasonAlreadyExists | StatusReasonUnknown

datatype error = Err StatusReason string

fun IsNotFound :: "error \<Rightarrow> bool" where
  "IsNotFound (Err r m) = (r = StatusReasonNotFound)"

fun IsAlreadyExists :: "error \<Rightarrow> bool" where
  "IsAlreadyExists (Err r m) = (r = StatusReasonAlreadyExists)"

fun errorString :: "error \<Rightarrow> string" where
  "errorString (Err r m) = m"

definition Errorf :: "string \<Rightarrow> error" where
  "Errorf m = Err StatusReasonUnknown m"

section \<open>Collaborators and the record of their calls\<close>

text \<open>
  The controllers reach the cluster through interfaces only. A collaborator is a
  function on a state \<open>'w\<close> of the world outside the controller, of which nothing is
  assumed. The system state pairs the world with the list of collaborator calls made
  so far, oldest first, so that a theorem can say which calls a handler made.
  \<^verbatim>\<open>glog\<close> output is not part of the model.
\<close>

datatype call =
    CallUpdate string Build
  | CallCreatePod string Pod
  | CallDeletePod string Pod
  | CallGetPod string string
  | CallGetImageStream string string
  | CallCreateBuildPod Build
  | CallEventf Build string string

record 'w sys =
  world :: 'w
  calls :: "call list"

fun isUpdate :: "call \<Rightarrow> bool" where
  "isUpdate (CallUpdate ns b) = True"
| "isUpdate c = False"

record 'w podManager =
  CreatePod :: "string \<Rightarrow> Pod \<Rightarrow> 'w \<Rightarrow> (error + Pod) \<times> 'w"
  DeletePod :: "string \<Rightarrow> Pod \<Rightarrow> 'w \<Rightarrow> error option \<times> 'w"
  GetPod :: "string \<Rightarrow> string \<Rightarrow> 'w \<Rightarrow> (error + Pod option) \<times> 'w"

type_synonym 'w BuildUpdater = "string \<Rightarrow> Build \<Rightarrow> 'w \<Rightarrow> error option \<times> 'w"

type_synonym 'w BuildStore = "Pod \<Rightarrow> 'w \<Rightarrow> error + Build option"

definition call_Update :: "'w BuildUpdater \<Rightarrow> string \<Rightarrow> Build \<Rightarrow> 'w sys \<Rightarrow> error option \<times> 'w sys" where
  "call_Update upd ns b s =
     (case upd ns b (world s) of
        (r, w) \<Rightarrow> (r, \<lparr>world = w, calls = calls s @ [CallUpdate ns b]\<rparr>))"

definition call_CreatePod :: "'w podManager \<Rightarrow> string \<Rightarrow> Pod \<Rightarrow> 'w sys \<Rightarrow> (error + Pod) \<times> 'w sys" where
  "call_CreatePod pm ns p s =
     (case CreatePod pm ns p (world s) of
        (r, w) \<Rightarrow> (r, \<lparr>world = w, calls = calls s @ [CallCreatePod ns p]\<rparr>))"

definition call_DeletePod :: "'w podManager \<Rightarrow> string \<Rightarrow> Pod \<Rightarrow> 'w sys \<Rightarrow> error option \<times> 'w sys" where
  "call_DeletePod pm ns p s =
     (case DeletePod pm ns p (world s) of
        (r, w) \<Rightarrow> (r, \<lparr>world = w, calls = calls s @ [CallDeletePod ns p]\<rparr>))"

definition call_GetPod :: "'w podManager \<Rightarrow> string \<Rightarrow> string \<Rightarrow> 'w sys \<Rightarrow> (error + Pod option) \<times> 'w sys" where
  "call_GetPod pm ns n s =
     (case GetPod pm ns n (world s) of
        (r, w) \<Rightarrow> (r, \<lparr>world = w, calls = calls s @ [CallGetPod ns n]\<rparr>))"

section \<open>Helpers of other packages\<close>

text \<open>
  Modelled from the spec: \<^verbatim>\<open>buildutil.IsBuildComplete\<close> is not among the sources. The
  spec's terminal statuses are Complete, Failed, Error and Cancelled.
\<close>

definition IsBuildComplete :: "Build \<Rightarrow> bool" where
  "IsBuildComplete build =
     (Status build = BuildStatusComplete \<or> Status build = BuildStatusFailed \<or>
      Status build = BuildStatusError \<or> Status build = BuildStatusCancelled)"

text \<open>
  Modelled from the spec: \<^verbatim>\<open>buildutil.GetBuildPodName\<close> is not among the sources. The
  spec's correlation convention is that the pod's name is the build's name.
\<close>

definition GetBuildPodName :: "Build \<Rightarrow> string" where
  "GetBuildPodName build = Name build"

text \<open>
  A Go map read \<^verbatim>\<open>pod.Labels[key]\<close> yields the empty string for a key that is absent.
\<close>

definition labelOf :: "Pod \<Rightarrow> string \<Rightarrow> string" where
  "labelOf pod key = (case Labels pod key of None \<Rightarrow> [] | Some v \<Rightarrow> v)"

section \<open>BuildController\<close>

text \<open>
  \<^verbatim>\<open>kapi.Scheme.Copy\<close> is a deep copy that may fail: \<open>CopyFailure\<close> says for which
  builds it fails and with which error; where it succeeds the copy equals the build.
  \<open>Recorder\<close> is \<^verbatim>\<open>Recorder.Eventf\<close>, which returns nothing.
\<close>

record 'w BuildController =
  BuildUpdater :: "'w BuildUpdater"
  PodManager :: "'w podManager"
  BuildStrategy :: "Build \<Rightarrow> 'w \<Rightarrow> (error + Pod) \<times> 'w"
  ImageStreamClient :: "string \<Rightarrow> string \<Rightarrow> 'w \<Rightarrow> (error + ImageStream) \<times> 'w"
  Recorder :: "Build \<Rightarrow> string \<Rightarrow> string \<Rightarrow> 'w \<Rightarrow> 'w"
  CopyFailure :: "Build \<Rightarrow> error option"

definition call_GetImageStream ::
  "'w BuildController \<Rightarrow> string \<Rightarrow> string \<Rightarrow> 'w sys \<Rightarrow> (error + ImageStream) \<times> 'w sys" where
  "call_GetImageStream bc ns n s =
     (case ImageStreamClient bc ns n (world s) of
        (r, w) \<Rightarrow> (r, \<lparr>world = w, calls = calls s @ [CallGetImageStream ns n]\<rparr>))"

definition call_CreateBuildPod ::
  "'w BuildController \<Rightarrow> Build \<Rightarrow> 'w sys \<Rightarrow> (error + Pod) \<times> 'w sys" where
  "call_CreateBuildPod bc b s =
     (case BuildStrategy bc b (world s) of
        (r, w) \<Rightarrow> (r, \<lparr>world = w, calls = calls s @ [CallCreateBuildPod b]\<rparr>))"

definition call_Eventf :: "'w BuildController \<Rightarrow> Build \<Rightarrow> string \<Rightarrow> string \<Rightarrow> 'w sys \<Rightarrow> 'w sys" where
  "call_Eventf bc b reason m s =
     \<lparr>world = Recorder bc b reason m (world s), calls = calls s @ [CallEventf b reason m]\<rparr>"

text \<open>
  Lines 78 to 101 of \<^verbatim>\<open>nextBuildStatus\<close>: the destination \<^verbatim>\<open>spec\<close> is the literal
  reference, or the image stream's repository with the tag when the output names an
  image stream.
\<close>

definition composeSpec :: "string \<Rightarrow> string \<Rightarrow> string" where
  "composeSpec repository tag =
     (if length tag = 0 then repository else repository @ '':'' @ tag)"

definition resolveOutput :: "'w BuildController \<Rightarrow> Build \<Rightarrow> 'w sys \<Rightarrow> (error + string) \<times> 'w sys" where
  "resolveOutput bc build s =
     (case To (Output (Parameters build)) of
        None \<Rightarrow> (Inr (DockerImageReference (Output (Parameters build))), s)
      | Some ref \<Rightarrow>
          (let namespace = (if length (ref_Namespace ref) = 0 then Namespace build
                            else ref_Namespace ref)
           in case call_GetImageStream bc namespace (ref_Name ref) s of
                (Inl err, s1) \<Rightarrow>
                  (if IsNotFound err
                   then (Inl (Errorf (''the referenced output image stream '' @ namespace @ ''/'' @
                           ref_Name ref @ '' does not exist'')), s1)
                   else (Inl (Errorf (''the referenced output image stream '' @ namespace @ ''/'' @
                           ref_Name ref @ '' could not be found by build '' @ Namespace build @
                           ''/'' @ Name build @ '': '' @ errorString err)), s1))
              | (Inr repo, s1) \<Rightarrow>
                  (if length (DockerImageRepository (is_Status repo)) = 0
                   then (Inl (Errorf (''the image stream '' @ namespace @ ''/'' @ ref_Name ref @
                           '' cannot be used as the output for build '' @ Namespace build @ ''/'' @
                           Name build @ '' because the integrated Docker registry is not configured, or the user forgot to set a valid external registry'')), s1)
                   else (Inr (composeSpec (DockerImageRepository (is_Status repo))
                                (Tag (Output (Parameters build)))), s1))))"

definition setPending :: "Build \<Rightarrow> string \<Rightarrow> Build" where
  "setPending build spec =
     build\<lparr>Status := BuildStatusPending,
           Parameters := (Parameters build)\<lparr>Output :=
             (Output (Parameters build))\<lparr>DockerImageReference := spec\<rparr>\<rparr>\<rparr>"

definition nextBuildStatus ::
  "'w BuildController \<Rightarrow> Build \<Rightarrow> 'w sys \<Rightarrow> error option \<times> Build \<times> 'w sys" where
  "nextBuildStatus bc build s =
     (if Cancelled build then (None, build\<lparr>Status := BuildStatusCancelled\<rparr>, s)
      else case resolveOutput bc build s of
        (Inl err, s1) \<Rightarrow> (Some err, build, s1)
      | (Inr spec, s1) \<Rightarrow>
          (let build1 = setPending build spec
           in case CopyFailure bc build1 of
                Some err \<Rightarrow>
                  (Some (Errorf (''unable to copy build: '' @ errorString err)), build1, s1)
              | None \<Rightarrow>
                  (case call_CreateBuildPod bc build1 s1 of
                     (Inl err, s2) \<Rightarrow>
                       (Some (Errorf (''the strategy failed to create a build pod for '' @
                          Namespace build1 @ ''/'' @ Name build1 @ '': '' @ errorString err)),
                        build1, s2)
                   | (Inr podSpec, s2) \<Rightarrow>
                       (case call_CreatePod (PodManager bc) (Namespace build1) podSpec s2 of
                          (Inl err, s3) \<Rightarrow>
                            (if IsAlreadyExists err then (None, build1, s3)
                             else (Some (Errorf (''failed to create pod for build '' @
                                     Namespace build1 @ ''/'' @ Name build1 @ '': '' @
                                     errorString err)),
                                   build1,
                                   call_Eventf bc build1 ''failedCreate''
                                     (''Error creating: '' @ errorString err) s3))
                        | (Inr created, s3) \<Rightarrow> (None, build1, s3)))))"

definition HandleBuild ::
  "'w BuildController \<Rightarrow> Build \<Rightarrow> 'w sys \<Rightarrow> error option \<times> Build \<times> 'w sys" where
  "HandleBuild bc build s =
     (if Status build \<noteq> BuildStatusNew then (None, build, s)
      else case nextBuildStatus bc build s of
        (Some err, build1, s1) \<Rightarrow>
          (Some (Errorf (''Build failed with error '' @ Namespace build1 @ ''/'' @
             Name build1 @ '': '' @ errorString err)), build1, s1)
      | (None, build1, s1) \<Rightarrow>
          (case call_Update (BuildUpdater bc) (Namespace build1) build1 s1 of
             (err, s2) \<Rightarrow> (None, build1, s2)))"

section \<open>BuildPodController\<close>

record 'w BuildPodController =
  bpc_BuildStore :: "'w BuildStore"
  bpc_BuildUpdater :: "'w BuildUpdater"
  bpc_PodManager :: "'w podManager"

definition isBuildCancellable :: "Build \<Rightarrow> bool" where
  "isBuildCancellable build =
     (Status build = BuildStatusNew \<or> Status build = BuildStatusPending \<or>
      Status build = BuildStatusRunning)"

definition CancelBuild ::
  "'w BuildPodController \<Rightarrow> Time \<Rightarrow> Build \<Rightarrow> Pod \<Rightarrow> 'w sys \<Rightarrow> error option \<times> Build \<times> 'w sys" where
  "CancelBuild bc now build pod s =
     (if \<not> isBuildCancellable build then (None, build, s)
      else case call_DeletePod (bpc_PodManager bc) (Namespace build) pod s of
        (err, s1) \<Rightarrow>
          (if (case err of None \<Rightarrow> False | Some e \<Rightarrow> \<not> IsNotFound e) then (err, build, s1)
           else (let build1 = build\<lparr>Status := BuildStatusCancelled,
                                     CompletionTimestamp := Some now\<rparr>
                 in case call_Update (bpc_BuildUpdater bc) (Namespace build1) build1 s1 of
                      (Some e, s2) \<Rightarrow> (Some e, build1, s2)
                    | (None, s2) \<Rightarrow> (None, build1, s2))))"

text \<open>
  The loop of lines 173 to 179: Complete, unless a container terminated with an exit
  code other than zero; the loop stops at the first such container.
\<close>

fun checkExitCodes :: "ContainerStatus list \<Rightarrow> BuildStatus" where
  "checkExitCodes [] = BuildStatusComplete"
| "checkExitCodes (info # rest) =
     (case Termination (State info) of
        None \<Rightarrow> checkExitCodes rest
      | Some t \<Rightarrow> (if ExitCode t \<noteq> 0 then BuildStatusFailed else checkExitCodes rest))"

definition podNextStatus :: "Build \<Rightarrow> Pod \<Rightarrow> BuildStatus" where
  "podNextStatus build pod =
     (case Phase (pod_Status pod) of
        PodRunning \<Rightarrow> BuildStatusRunning
      | PodSucceeded \<Rightarrow> checkExitCodes (ContainerStatuses (pod_Status pod))
      | PodFailed \<Rightarrow> checkExitCodes (ContainerStatuses (pod_Status pod))
      | PodPending \<Rightarrow> Status build
      | PodUnknown \<Rightarrow> Status build)"

definition stampStatus :: "Time \<Rightarrow> Build \<Rightarrow> BuildStatus \<Rightarrow> Build" where
  "stampStatus now build nextStatus =
     (let build1 = build\<lparr>Status := nextStatus\<rparr>;
          build2 = (if IsBuildComplete build1 then build1\<lparr>CompletionTimestamp := Some now\<rparr>
                    else build1)
      in if Status build2 = BuildStatusRunning then build2\<lparr>StartTimestamp := Some now\<rparr>
         else build2)"

definition HandlePod ::
  "'w BuildPodController \<Rightarrow> Time \<Rightarrow> Pod \<Rightarrow> 'w sys \<Rightarrow> error option \<times> Build option \<times> 'w sys" where
  "HandlePod bc now pod s =
     (case bpc_BuildStore bc pod (world s) of
        Inl err \<Rightarrow> (Some err, None, s)
      | Inr None \<Rightarrow> (None, None, s)
      | Inr (Some build) \<Rightarrow>
          (if Cancelled build
           then (case CancelBuild bc now build pod s of
                   (Some err, build1, s1) \<Rightarrow>
                     (Some (Errorf (''Failed to cancel build '' @ Name build1 @ '': '' @
                        errorString err @ '', will retry'')), Some build1, s1)
                 | (None, build1, s1) \<Rightarrow> (None, Some build1, s1))
           else (let nextStatus = podNextStatus build pod
                 in if Status build \<noteq> nextStatus
                    then (let build1 = stampStatus now build nextStatus
                          in case call_Update (bpc_BuildUpdater bc) (Namespace build1) build1 s of
                               (Some err, s1) \<Rightarrow>
                                 (Some (Errorf (''Failed to update build '' @ Name build1 @
                                    '': '' @ errorString err)), Some build1, s1)
                             | (None, s1) \<Rightarrow> (None, Some build1, s1))
                    else (None, Some build, s))))"

section \<open>BuildPodDeleteController\<close>

record 'w BuildPodDeleteController =
  bpdc_BuildStore :: "'w BuildStore"
  bpdc_BuildUpdater :: "'w BuildUpdater"

definition podDeletedMessage :: string where
  "podDeletedMessage = ''The Pod for this Build was deleted before the Build completed.''"

definition HandleBuildPodDeletion ::
  "'w BuildPodDeleteController \<Rightarrow> Time \<Rightarrow> Pod \<Rightarrow> 'w sys \<Rightarrow>
     error option \<times> Build option \<times> 'w sys" where
  "HandleBuildPodDeletion bc now pod s =
     (case bpdc_BuildStore bc pod (world s) of
        Inl err \<Rightarrow> (Some err, None, s)
      | Inr None \<Rightarrow> (None, None, s)
      | Inr (Some build) \<Rightarrow>
          (if IsBuildComplete build then (None, Some build, s)
           else (let nextStatus = BuildStatusError
                 in if Status build \<noteq> nextStatus
                    then (let build1 = build\<lparr>Status := nextStatus,
                                              Message := podDeletedMessage,
                                              CompletionTimestamp := Some now\<rparr>
                          in case call_Update (bpdc_BuildUpdater bc) (Namespace build1) build1 s of
                               (Some err, s1) \<Rightarrow>
                                 (Some (Errorf (''Failed to update build '' @ Name build1 @
                                    '': '' @ errorString err)), Some build1, s1)
                             | (None, s1) \<Rightarrow> (None, Some build1, s1))
                    else (None, Some build, s))))"

section \<open>BuildDeleteController\<close>

text \<open>
  The value of the constant \<^verbatim>\<open>buildapi.BuildLabel\<close> is not among the sources: the
  label key is a field of the controller here.
\<close>

record 'w BuildDeleteController =
  bdc_PodManager :: "'w podManager"
  BuildLabel :: string

definition HandleBuildDeletion ::
  "'w BuildDeleteController \<Rightarrow> Build \<Rightarrow> 'w sys \<Rightarrow> error option \<times> 'w sys" where
  "HandleBuildDeletion bc build s =
     (let podName = GetBuildPodName build
      in case call_GetPod (bdc_PodManager bc) (Namespace build) podName s of
           (Inl err, s1) \<Rightarrow> (Some err, s1)
         | (Inr None, s1) \<Rightarrow> (None, s1)
         | (Inr (Some pod), s1) \<Rightarrow>
             (if labelOf pod (BuildLabel bc) \<noteq> Name build then (None, s1)
              else call_DeletePod (bdc_PodManager bc) (Namespace build) pod s1))"

section \<open>A cluster with a pod store\<close>

text \<open>
  Modelled from the spec: the implementation of the \<^verbatim>\<open>podManager\<close> interface is not
  among the sources. The spec gives its contract: \<^verbatim>\<open>CreatePod\<close> yields the pod or an
  AlreadyExists error, \<^verbatim>\<open>DeletePod\<close> succeeds or yields a NotFound error, \<^verbatim>\<open>GetPod\<close>
  yields the pod or nil when it is absent. The world is the list of pods that exist; a
  pod is identified by its namespace and name.
\<close>

definition podKey :: "Pod \<Rightarrow> string \<times> string" where
  "podKey p = (pod_Namespace p, pod_Name p)"

definition podCount :: "Pod list \<Rightarrow> string \<Rightarrow> string \<Rightarrow> nat" where
  "podCount ps ns n = length (filter (\<lambda>q. podKey q = (ns, n)) ps)"

definition storeCreatePod :: "string \<Rightarrow> Pod \<Rightarrow> Pod list \<Rightarrow> (error + Pod) \<times> Pod list" where
  "storeCreatePod ns pod ps =
     (if podCount ps ns (pod_Name pod) = 0
      then (Inr (pod\<lparr>pod_Namespace := ns\<rparr>), ps @ [pod\<lparr>pod_Namespace := ns\<rparr>])
      else (Inl (Err StatusReasonAlreadyExists (''pod '' @ pod_Name pod @ '' already exists'')), ps))"

definition storeDeletePod :: "string \<Rightarrow> Pod \<Rightarrow> Pod list \<Rightarrow> error option \<times> Pod list" where
  "storeDeletePod ns pod ps =
     (if podCount ps ns (pod_Name pod) = 0
      then (Some (Err StatusReasonNotFound (''pod '' @ pod_Name pod @ '' not found'')), ps)
      else (None, filter (\<lambda>q. podKey q \<noteq> (ns, pod_Name pod)) ps))"

definition storeGetPod :: "string \<Rightarrow> string \<Rightarrow> Pod list \<Rightarrow> (error + Pod option) \<times> Pod list" where
  "storeGetPod ns n ps = (Inr (find (\<lambda>q. podKey q = (ns, n)) ps), ps)"

definition storePodManager :: "Pod list podManager" where
  "storePodManager =
     \<lparr>CreatePod = storeCreatePod, DeletePod = storeDeletePod, GetPod = storeGetPod\<rparr>"

text \<open>
  Controllers over the pod store. The image streams, the strategy, the build index and
  the updater answer as functions of their arguments and leave the pods alone; the
  recorder does nothing and the copy never fails.
\<close>

definition storeController ::
  "(string \<Rightarrow> string \<Rightarrow> error + ImageStream) \<Rightarrow> (Build \<Rightarrow> error + Pod) \<Rightarrow>
   (string \<Rightarrow> Build \<Rightarrow> error option) \<Rightarrow> Pod list BuildController" where
  "storeController streams strategy update =
     \<lparr>BuildUpdater = (\<lambda>ns b w. (update ns b, w)),
      PodManager = storePodManager,
      BuildStrategy = (\<lambda>b w. (strategy b, w)),
      ImageStreamClient = (\<lambda>ns n w. (streams ns n, w)),
      Recorder = (\<lambda>b r m w. w),
      CopyFailure = (\<lambda>b. None)\<rparr>"

definition storePodController ::
  "(Pod \<Rightarrow> error + Build option) \<Rightarrow> (string \<Rightarrow> Build \<Rightarrow> error option) \<Rightarrow>
   Pod list BuildPodController" where
  "storePodController builds update =
     \<lparr>bpc_BuildStore = (\<lambda>p w. builds p),
      bpc_BuildUpdater = (\<lambda>ns b w. (update ns b, w)),
      bpc_PodManager = storePodManager\<rparr>"

definition storePodDeleteController ::
  "(Pod \<Rightarrow> error + Build option) \<Rightarrow> (string \<Rightarrow> Build \<Rightarrow> error option) \<Rightarrow>
   Pod list BuildPodDeleteController" where
  "storePodDeleteController builds update =
     \<lparr>bpdc_BuildStore = (\<lambda>p w. builds p),
      bpdc_BuildUpdater = (\<lambda>ns b w. (update ns b, w))\<rparr>"

definition storeDeleteController :: "Pod list BuildDeleteController" where
  "storeDeleteController = \<lparr>bdc_PodManager = storePodManager, BuildLabel = ''build''\<rparr>"

section \<open>Example objects\<close>

text \<open>
  The build of the spec's example: \<^verbatim>\<open>b1\<close> in namespace \<^verbatim>\<open>ns\<close>, New, with the image
  stream \<^verbatim>\<open>is1\<close> and the tag \<^verbatim>\<open>v1\<close> as its output; its pod; an image stream client that
  knows \<^verbatim>\<open>ns/is1\<close> only; a strategy that names the pod after the build.
\<close>

definition b1 :: Build where
  "b1 = \<lparr>Name = ''b1'', Namespace = ''ns'',
         Parameters = \<lparr>Output = \<lparr>To = Some \<lparr>ref_Namespace = [], ref_Name = ''is1''\<rparr>,
                                  Tag = ''v1'', DockerImageReference = []\<rparr>\<rparr>,
         Status = BuildStatusNew, Message = [], Cancelled = False,
         StartTimestamp = None, CompletionTimestamp = None\<rparr>"

definition bMissing :: Build where
  "bMissing = b1\<lparr>Parameters := \<lparr>Output = \<lparr>To = Some \<lparr>ref_Namespace = [], ref_Name = ''is2''\<rparr>,
                                  Tag = [], DockerImageReference = []\<rparr>\<rparr>\<rparr>"

definition bRunning :: Build where
  "bRunning = b1\<lparr>Status := BuildStatusRunning, StartTimestamp := Some 3\<rparr>"

definition bComplete :: Build where
  "bComplete = b1\<lparr>Status := BuildStatusComplete, StartTimestamp := Some 3,
                  CompletionTimestamp := Some 5\<rparr>"

definition pod1 :: Pod where
  "pod1 = \<lparr>pod_Name = ''b1'', pod_Namespace = ''ns'', Labels = [''build'' \<mapsto> ''b1''],
           pod_Status = \<lparr>Phase = PodRunning, ContainerStatuses = []\<rparr>\<rparr>"

definition podOther :: Pod where
  "podOther = \<lparr>pod_Name = ''b1'', pod_Namespace = ''ns'', Labels = [''build'' \<mapsto> ''b0''],
           pod_Status = \<lparr>Phase = PodRunning, ContainerStatuses = []\<rparr>\<rparr>"

definition podExit :: "PodPhase \<Rightarrow> int list \<Rightarrow> Pod" where
  "podExit ph codes =
     \<lparr>pod_Name = ''b1'', pod_Namespace = ''ns'', Labels = [''build'' \<mapsto> ''b1''],
      pod_Status = \<lparr>Phase = ph,
        ContainerStatuses =
          map (\<lambda>c. \<lparr>State = \<lparr>Termination = Some \<lparr>ExitCode = c\<rparr>\<rparr>\<rparr>) codes\<rparr>\<rparr>"

definition streams1 :: "string \<Rightarrow> string \<Rightarrow> error + ImageStream" where
  "streams1 ns n =
     (if ns = ''ns'' \<and> n = ''is1''
      then Inr \<lparr>is_Status = \<lparr>DockerImageRepository = ''registry:5000/ns/is1''\<rparr>\<rparr>
      else Inl (Err StatusReasonNotFound ''image stream not found''))"

definition strategy1 :: "Build \<Rightarrow> error + Pod" where
  "strategy1 b =
     Inr \<lparr>pod_Name = Name b, pod_Namespace = Namespace b, Labels = [''build'' \<mapsto> Name b],
          pod_Status = \<lparr>Phase = PodPending, ContainerStatuses = []\<rparr>\<rparr>"

definition update1 :: "string \<Rightarrow> Build \<Rightarrow> error option" where
  "update1 ns b = None"

definition s0 :: "Pod list sys" where
  "s0 = \<lparr>world = [], calls = []\<rparr>"

text \<open>A container that terminated with an exit code other than zero.\<close>

definition terminatedNonzero :: "ContainerStatus \<Rightarrow> bool" where
  "terminatedNonzero info =
     (case Termination (State info) of None \<Rightarrow> False | Some t \<Rightarrow> ExitCode t \<noteq> 0)"

section \<open>Properties of the controllers\<close>

text \<open>
  Claim C4. For a build whose status is not New, \<open>HandleBuild\<close> returns no error and
  leaves the build and the system state as they are: no collaborator is called, so no
  pod is created and nothing is persisted.
\<close>
theorem HandleBuild_not_New_noop:
  "Status build \<noteq> BuildStatusNew \<Longrightarrow> HandleBuild bc build s = (None, build, s)"
  by (simp add: HandleBuild_def)

theorem HandleBuild_not_New_noop_witness:
  "HandleBuild (storeController streams1 strategy1 update1) (b1\<lparr>Status := BuildStatusPending\<rparr>) s0
     = (None, b1\<lparr>Status := BuildStatusPending\<rparr>, s0)"
  using HandleBuild_not_New_noop [of "b1\<lparr>Status := BuildStatusPending\<rparr>"
      "storeController streams1 strategy1 update1" s0]
  by simp

text \<open>
  Claim C7. For a build whose status is not New, Pending or Running, \<open>CancelBuild\<close>
  returns no error and leaves the build and the system state as they are: the pod is not
  deleted and nothing is persisted.
\<close>
theorem CancelBuild_not_cancellable_noop:
  "Status build \<notin> {BuildStatusNew, BuildStatusPending, BuildStatusRunning} \<Longrightarrow>
   CancelBuild bc now build pod s = (None, build, s)"
  by (simp add: CancelBuild_def isBuildCancellable_def)

theorem CancelBuild_not_cancellable_noop_witness:
  "CancelBuild (storePodController (\<lambda>p. Inr None) update1) 7 (b1\<lparr>Status := BuildStatusComplete\<rparr>) pod1
     \<lparr>world = [pod1], calls = []\<rparr>
     = (None, b1\<lparr>Status := BuildStatusComplete\<rparr>, \<lparr>world = [pod1], calls = []\<rparr>)"
  using CancelBuild_not_cancellable_noop [of "b1\<lparr>Status := BuildStatusComplete\<rparr>"
      "storePodController (\<lambda>p. Inr None) update1" 7 pod1 "\<lparr>world = [pod1], calls = []\<rparr>"]
  by simp

lemma checkExitCodes_eq:
  "checkExitCodes cs =
     (if list_ex terminatedNonzero cs then BuildStatusFailed else BuildStatusComplete)"
  by (induction cs) (auto simp: terminatedNonzero_def split: option.splits)

lemma call_Update_calls:
  "call_Update upd ns b s = (r, s1) \<Longrightarrow> calls s1 = calls s @ [CallUpdate ns b]"
  by (auto simp: call_Update_def split: prod.splits)

text \<open>
  Claim C5. For a pod in phase Succeeded or Failed whose build is found and not
  cancelled, \<open>HandlePod\<close> leaves the build Failed when a container terminated with an
  exit code other than zero, and Complete otherwise.
\<close>

theorem HandlePod_exit_codes:
  assumes "bpc_BuildStore bc pod (world s) = Inr (Some build)"
    and "\<not> Cancelled build"
    and "Phase (pod_Status pod) = PodSucceeded \<or> Phase (pod_Status pod) = PodFailed"
  shows "\<exists>r build' s'. HandlePod bc now pod s = (r, Some build', s') \<and>
           Status build' =
             (if list_ex terminatedNonzero (ContainerStatuses (pod_Status pod))
              then BuildStatusFailed else BuildStatusComplete)"
proof -
  have next_eq: "podNextStatus build pod =
      (if list_ex terminatedNonzero (ContainerStatuses (pod_Status pod))
       then BuildStatusFailed else BuildStatusComplete)"
    using assms(3) by (auto simp: podNextStatus_def checkExitCodes_eq)
  show ?thesis
  proof (cases "Status build = podNextStatus build pod")
    case True
    then have "HandlePod bc now pod s = (None, Some build, s)"
      using assms(1,2) by (simp add: HandlePod_def)
    with True next_eq show ?thesis by simp
  next
    case False
    obtain r s1 where upd: "call_Update (bpc_BuildUpdater bc)
        (Namespace (stampStatus now build (podNextStatus build pod)))
        (stampStatus now build (podNextStatus build pod)) s = (r, s1)"
      by (cases "call_Update (bpc_BuildUpdater bc)
        (Namespace (stampStatus now build (podNextStatus build pod)))
        (stampStatus now build (podNextStatus build pod)) s") auto
    have st: "Status (stampStatus now build (podNextStatus build pod)) = podNextStatus build pod"
      by (simp add: stampStatus_def Let_def)
    from False upd assms(1,2)
    have "\<exists>r'. HandlePod bc now pod s =
        (r', Some (stampStatus now build (podNextStatus build pod)), s1)"
      by (cases r) (simp_all add: HandlePod_def Let_def)
    with st next_eq show ?thesis by auto
  qed
qed

theorem HandlePod_exit_codes_witness:
  "(\<exists>r build' s'.
      HandlePod (storePodController (\<lambda>p. Inr (Some bRunning)) update1) 7
        (podExit PodSucceeded [0, 1]) s0 = (r, Some build', s') \<and>
      Status build' = BuildStatusFailed) \<and>
   (\<exists>r build' s'.
      HandlePod (storePodController (\<lambda>p. Inr (Some bRunning)) update1) 7
        (podExit PodFailed [0, 0]) s0 = (r, Some build', s') \<and>
      Status build' = BuildStatusComplete)"
  using HandlePod_exit_codes [of "storePodController (\<lambda>p. Inr (Some bRunning)) update1"
      "podExit PodSucceeded [0, 1]" s0 bRunning 7]
    HandlePod_exit_codes [of "storePodController (\<lambda>p. Inr (Some bRunning)) update1"
      "podExit PodFailed [0, 0]" s0 bRunning 7]
  by (simp add: storePodController_def podExit_def bRunning_def b1_def terminatedNonzero_def)

lemma call_GetImageStream_eq:
  "ImageStreamClient bc ns n (world s) = (r, w1) \<Longrightarrow>
   call_GetImageStream bc ns n s = (r, \<lparr>world = w1, calls = calls s @ [CallGetImageStream ns n]\<rparr>)"
  by (simp add: call_GetImageStream_def)

lemma resolveOutput_stream:
  assumes "To (Output (Parameters build)) = Some ref"
    and "ImageStreamClient bc
           (if ref_Namespace ref = [] then Namespace build else ref_Namespace ref)
           (ref_Name ref) (world s) = (Inr repo, w1)"
    and "DockerImageRepository (is_Status repo) \<noteq> []"
  shows "resolveOutput bc build s =
     (Inr (composeSpec (DockerImageRepository (is_Status repo)) (Tag (Output (Parameters build)))),
      \<lparr>world = w1, calls = calls s @
         [CallGetImageStream (if ref_Namespace ref = [] then Namespace build else ref_Namespace ref)
            (ref_Name ref)]\<rparr>)"
  using assms by (simp add: resolveOutput_def Let_def call_GetImageStream_eq)

lemma call_CreateBuildPod_calls:
  "call_CreateBuildPod bc b s = (r, s1) \<Longrightarrow> calls s1 = calls s @ [CallCreateBuildPod b]"
  by (auto simp: call_CreateBuildPod_def split: prod.splits)

lemma call_CreatePod_calls:
  "call_CreatePod pm ns p s = (r, s1) \<Longrightarrow> calls s1 = calls s @ [CallCreatePod ns p]"
  by (auto simp: call_CreatePod_def split: prod.splits)

lemma call_Eventf_calls:
  "calls (call_Eventf bc b reason m s) = calls s @ [CallEventf b reason m]"
  by (simp add: call_Eventf_def)

text \<open>What \<open>nextBuildStatus\<close> does once the destination is resolved.\<close>

lemma nextBuildStatus_resolved:
  assumes "\<not> Cancelled build" and "resolveOutput bc build s = (Inr spec, s1)"
  shows "\<exists>r s'. nextBuildStatus bc build s = (r, setPending build spec, s') \<and>
           (\<exists>cs. calls s' = calls s1 @ cs \<and>
              (\<forall>c \<in> set cs. \<not> isUpdate c) \<and>
              (\<forall>b. CallCreateBuildPod b \<in> set cs \<longrightarrow> b = setPending build spec) \<and>
              (CopyFailure bc (setPending build spec) = None \<longrightarrow>
                 take 1 cs = [CallCreateBuildPod (setPending build spec)]))"
proof (cases "CopyFailure bc (setPending build spec)")
  case (Some e)
  with assms show ?thesis by (simp add: nextBuildStatus_def Let_def)
next
  case None
  obtain r2 s2 where strat: "call_CreateBuildPod bc (setPending build spec) s1 = (r2, s2)"
    by (cases "call_CreateBuildPod bc (setPending build spec) s1") auto
  note c2 = call_CreateBuildPod_calls [OF strat]
  show ?thesis
  proof (cases r2)
    case (Inl e)
    with assms None strat c2 show ?thesis by (simp add: nextBuildStatus_def Let_def)
  next
    case (Inr podSpec)
    obtain r3 s3 where cre: "call_CreatePod (PodManager bc)
        (Namespace (setPending build spec)) podSpec s2 = (r3, s3)"
      by (cases "call_CreatePod (PodManager bc) (Namespace (setPending build spec)) podSpec s2") auto
    note c3 = call_CreatePod_calls [OF cre]
    show ?thesis
    proof (cases r3)
      case (Inl e)
      with assms None strat c2 Inr cre c3 show ?thesis
        by (simp add: nextBuildStatus_def Let_def call_Eventf_calls)
    next
      case (Inr created)
      with assms None strat c2 \<open>r2 = Inr podSpec\<close> cre c3 show ?thesis
        by (simp add: nextBuildStatus_def Let_def)
    qed
  qed
qed

lemma resolveOutput_calls:
  "resolveOutput bc build s = (r, s1) \<Longrightarrow>
   \<exists>cs. calls s1 = calls s @ cs \<and> (\<forall>c \<in> set cs. \<not> isUpdate c)"
  by (auto simp: resolveOutput_def Let_def call_GetImageStream_def
      split: option.splits prod.splits sum.splits if_splits)

lemma nextBuildStatus_calls:
  assumes "nextBuildStatus bc build s = (r, build', s')"
  shows "\<exists>cs. calls s' = calls s @ cs \<and> (\<forall>c \<in> set cs. \<not> isUpdate c)"
proof (cases "Cancelled build")
  case True
  with assms show ?thesis by (simp add: nextBuildStatus_def)
next
  case False
  obtain ro s1 where ro: "resolveOutput bc build s = (ro, s1)"
    by (cases "resolveOutput bc build s") auto
  from resolveOutput_calls [OF ro] obtain cs1
    where cs1: "calls s1 = calls s @ cs1" "\<forall>c \<in> set cs1. \<not> isUpdate c" by blast
  show ?thesis
  proof (cases ro)
    case (Inl e)
    with assms False ro cs1 show ?thesis by (auto simp: nextBuildStatus_def)
  next
    case (Inr spec)
    with ro have "resolveOutput bc build s = (Inr spec, s1)" by simp
    from nextBuildStatus_resolved [OF False this] assms obtain cs2
      where "calls s' = calls s1 @ cs2" "\<forall>c \<in> set cs2. \<not> isUpdate c" by auto
    with cs1 show ?thesis by auto
  qed
qed

text \<open>
  Claim C6. For a New build that is not cancelled and whose output names an image
  stream with a repository, \<open>HandleBuild\<close> leaves the build Pending with the resolved
  reference as its output: the repository, followed by a colon and the tag when there is
  a tag. The image stream is fetched first; the strategy, when the copy succeeds, is
  called next, and only ever on that build.
\<close>

theorem HandleBuild_resolves_image_stream:
  assumes "Status build = BuildStatusNew"
    and "\<not> Cancelled build"
    and "To (Output (Parameters build)) = Some ref"
    and "ImageStreamClient bc
           (if ref_Namespace ref = [] then Namespace build else ref_Namespace ref)
           (ref_Name ref) (world s) = (Inr repo, w1)"
    and "DockerImageRepository (is_Status repo) \<noteq> []"
  shows "\<exists>r build' s' cs.
           HandleBuild bc build s = (r, build', s') \<and>
           Status build' = BuildStatusPending \<and>
           DockerImageReference (Output (Parameters build')) =
             (if Tag (Output (Parameters build)) = [] then DockerImageRepository (is_Status repo)
              else DockerImageRepository (is_Status repo) @ '':'' @ Tag (Output (Parameters build))) \<and>
           calls s' = calls s @
             CallGetImageStream
               (if ref_Namespace ref = [] then Namespace build else ref_Namespace ref)
               (ref_Name ref) # cs \<and>
           (\<forall>b. CallCreateBuildPod b \<in> set cs \<longrightarrow> b = build') \<and>
           (CopyFailure bc build' = None \<longrightarrow> take 1 cs = [CallCreateBuildPod build'])"
proof -
  let ?spec = "composeSpec (DockerImageRepository (is_Status repo)) (Tag (Output (Parameters build)))"
  let ?b = "setPending build ?spec"
  note ro = resolveOutput_stream [OF assms(3,4,5)]
  from nextBuildStatus_resolved [OF assms(2) ro] obtain r s1 cs
    where nb: "nextBuildStatus bc build s = (r, ?b, s1)"
      and cs: "calls s1 = calls s @
          CallGetImageStream
            (if ref_Namespace ref = [] then Namespace build else ref_Namespace ref)
            (ref_Name ref) # cs"
      and only: "\<forall>b. CallCreateBuildPod b \<in> set cs \<longrightarrow> b = ?b"
      and first: "CopyFailure bc ?b = None \<longrightarrow> take 1 cs = [CallCreateBuildPod ?b]"
    by auto
  have props: "Status ?b = BuildStatusPending"
    "DockerImageReference (Output (Parameters ?b)) =
       (if Tag (Output (Parameters build)) = [] then DockerImageRepository (is_Status repo)
        else DockerImageRepository (is_Status repo) @ '':'' @ Tag (Output (Parameters build)))"
    by (simp_all add: setPending_def composeSpec_def)
  show ?thesis
  proof (cases r)
    case (Some e)
    with nb assms(1) have "HandleBuild bc build s =
        (Some (Errorf (''Build failed with error '' @ Namespace ?b @ ''/'' @ Name ?b @ '': '' @
           errorString e)), ?b, s1)"
      by (simp add: HandleBuild_def)
    with props cs only first show ?thesis by simp
  next
    case None
    obtain u s2 where upd: "call_Update (BuildUpdater bc) (Namespace ?b) ?b s1 = (u, s2)"
      by (cases "call_Update (BuildUpdater bc) (Namespace ?b) ?b s1") auto
    with nb None assms(1) have hb: "HandleBuild bc build s = (None, ?b, s2)"
      by (simp add: HandleBuild_def)
    from call_Update_calls [OF upd] cs
    have cs2: "calls s2 = calls s @
          CallGetImageStream
            (if ref_Namespace ref = [] then Namespace build else ref_Namespace ref)
            (ref_Name ref) # (cs @ [CallUpdate (Namespace ?b) ?b])"
      by simp
    have only2: "\<forall>b. CallCreateBuildPod b \<in> set (cs @ [CallUpdate (Namespace ?b) ?b]) \<longrightarrow> b = ?b"
      using only by auto
    have first2: "CopyFailure bc ?b = None \<longrightarrow>
        take 1 (cs @ [CallUpdate (Namespace ?b) ?b]) = [CallCreateBuildPod ?b]"
      using first by (cases cs) auto
    from hb props cs2 only2 first2 show ?thesis by simp
  qed
qed

theorem HandleBuild_resolves_image_stream_witness:
  "\<exists>r build' s' cs.
     HandleBuild (storeController streams1 strategy1 update1) b1 s0 = (r, build', s') \<and>
     Status build' = BuildStatusPending \<and>
     DockerImageReference (Output (Parameters build')) = ''registry:5000/ns/is1:v1'' \<and>
     calls s' = CallGetImageStream ''ns'' ''is1'' # cs \<and>
     take 1 cs = [CallCreateBuildPod build']"
  using HandleBuild_resolves_image_stream [of b1 "\<lparr>ref_Namespace = [], ref_Name = ''is1''\<rparr>"
      "storeController streams1 strategy1 update1" s0
      "\<lparr>is_Status = \<lparr>DockerImageRepository = ''registry:5000/ns/is1''\<rparr>\<rparr>" "[]"]
  by (auto simp: b1_def storeController_def streams1_def s0_def)

text \<open>
  Claim C10. When \<open>HandleBuild\<close> returns an error, the build it was given was New
  and none of the calls it made is a call of the updater.
\<close>

theorem HandleBuild_error_no_Update:
  assumes "HandleBuild bc build s = (Some err, build', s')"
  shows "Status build = BuildStatusNew \<and>
         (\<exists>cs. calls s' = calls s @ cs \<and> (\<forall>c \<in> set cs. \<not> isUpdate c))"
proof -
  have new: "Status build = BuildStatusNew"
    using assms by (auto simp: HandleBuild_def split: if_splits)
  obtain r b1 s1 where nb: "nextBuildStatus bc build s = (r, b1, s1)"
    by (cases "nextBuildStatus bc build s") auto
  with assms new have "s' = s1"
    by (auto simp: HandleBuild_def split: option.splits prod.splits)
  with nextBuildStatus_calls [OF nb] new show ?thesis by simp
qed

theorem HandleBuild_error_no_Update_witness:
  "HandleBuild (storeController streams1 strategy1 update1) bMissing s0 =
     (Some (Errorf ''Build failed with error ns/b1: the referenced output image stream ns/is2 does not exist''),
      bMissing, \<lparr>world = [], calls = [CallGetImageStream ''ns'' ''is2'']\<rparr>) \<and>
   Status bMissing = BuildStatusNew \<and>
   (\<exists>cs. [CallGetImageStream ''ns'' ''is2''] = calls s0 @ cs \<and> (\<forall>c \<in> set cs. \<not> isUpdate c))"
proof -
  have run: "HandleBuild (storeController streams1 strategy1 update1) bMissing s0 =
     (Some (Errorf ''Build failed with error ns/b1: the referenced output image stream ns/is2 does not exist''),
      bMissing, \<lparr>world = [], calls = [CallGetImageStream ''ns'' ''is2'']\<rparr>)"
    by (simp add: HandleBuild_def nextBuildStatus_def resolveOutput_def call_GetImageStream_def
        storeController_def streams1_def bMissing_def b1_def s0_def Let_def Errorf_def)
  from HandleBuild_error_no_Update [OF run] run show ?thesis by simp
qed

lemma call_DeletePod_calls:
  "call_DeletePod pm ns p s = (r, s1) \<Longrightarrow> calls s1 = calls s @ [CallDeletePod ns p]"
  by (auto simp: call_DeletePod_def split: prod.splits)

text \<open>
  Claim C8. \<open>HandleBuildDeletion\<close> looks the pod up. It returns the error of a failed
  lookup. Without a pod, or with a pod whose build label is not the build's name, it
  returns no error and makes no further call. With a pod whose build label is the
  build's name it deletes that pod and returns what the deletion returns.
\<close>

theorem HandleBuildDeletion_label_guard:
  assumes "call_GetPod (bdc_PodManager bc) (Namespace build) (GetBuildPodName build) s = (g, s1)"
  shows "\<exists>r s'. HandleBuildDeletion bc build s = (r, s') \<and>
           (\<forall>err. g = Inl err \<longrightarrow> r = Some err \<and> s' = s1) \<and>
           (g = Inr None \<longrightarrow> r = None \<and> s' = s1) \<and>
           (\<forall>pod. g = Inr (Some pod) \<and> labelOf pod (BuildLabel bc) \<noteq> Name build \<longrightarrow>
              r = None \<and> s' = s1) \<and>
           (\<forall>pod. g = Inr (Some pod) \<and> labelOf pod (BuildLabel bc) = Name build \<longrightarrow>
              (r, s') = call_DeletePod (bdc_PodManager bc) (Namespace build) pod s1 \<and>
              calls s' = calls s1 @ [CallDeletePod (Namespace build) pod])"
proof (cases g)
  case (Inl err)
  with assms show ?thesis by (simp add: HandleBuildDeletion_def Let_def)
next
  case (Inr po)
  show ?thesis
  proof (cases po)
    case None
    with Inr assms show ?thesis by (simp add: HandleBuildDeletion_def Let_def)
  next
    case (Some pod)
    show ?thesis
    proof (cases "labelOf pod (BuildLabel bc) = Name build")
      case False
      with Some Inr assms show ?thesis by (simp add: HandleBuildDeletion_def Let_def)
    next
      case True
      obtain r s' where del: "call_DeletePod (bdc_PodManager bc) (Namespace build) pod s1 = (r, s')"
        by (cases "call_DeletePod (bdc_PodManager bc) (Namespace build) pod s1") auto
      from call_DeletePod_calls [OF del] del True Some Inr assms show ?thesis
        by (simp add: HandleBuildDeletion_def Let_def)
    qed
  qed
qed

theorem HandleBuildDeletion_label_guard_witness:
  "HandleBuildDeletion storeDeleteController b1 \<lparr>world = [podOther], calls = []\<rparr> =
     (None, \<lparr>world = [podOther], calls = [CallGetPod ''ns'' ''b1'']\<rparr>) \<and>
   HandleBuildDeletion storeDeleteController b1 \<lparr>world = [pod1], calls = []\<rparr> =
     (None, \<lparr>world = [], calls = [CallGetPod ''ns'' ''b1'', CallDeletePod ''ns'' pod1]\<rparr>)"
  using HandleBuildDeletion_label_guard [of storeDeleteController b1
      "\<lparr>world = [podOther], calls = []\<rparr>" "Inr (Some podOther)"
      "\<lparr>world = [podOther], calls = [CallGetPod ''ns'' ''b1'']\<rparr>"]
    HandleBuildDeletion_label_guard [of storeDeleteController b1
      "\<lparr>world = [pod1], calls = []\<rparr>" "Inr (Some pod1)"
      "\<lparr>world = [pod1], calls = [CallGetPod ''ns'' ''b1'']\<rparr>"]
  by (auto simp: storeDeleteController_def storePodManager_def storeGetPod_def storeDeletePod_def
      call_GetPod_def call_DeletePod_def GetBuildPodName_def labelOf_def podKey_def podCount_def
      b1_def pod1_def podOther_def)

text \<open>
  Claim C9. When the build of a deleted pod is found: if its status is Complete, Failed,
  Error or Cancelled, \<open>HandleBuildPodDeletion\<close> returns no error and changes nothing;
  otherwise it sets the status to Error, sets the message that the pod was deleted
  before the build completed, sets the completion timestamp, calls the updater with
  that build, and returns an error exactly when the updater does.
\<close>

theorem HandleBuildPodDeletion_found:
  assumes "bpdc_BuildStore bc pod (world s) = Inr (Some build)"
  shows "(Status build \<in> {BuildStatusComplete, BuildStatusFailed, BuildStatusError,
                          BuildStatusCancelled} \<longrightarrow>
            HandleBuildPodDeletion bc now pod s = (None, Some build, s)) \<and>
         (Status build \<in> {BuildStatusNew, BuildStatusPending, BuildStatusRunning} \<longrightarrow>
            (\<exists>r build' u s'.
               HandleBuildPodDeletion bc now pod s = (r, Some build', s') \<and>
               Status build' = BuildStatusError \<and>
               Message build' = ''The Pod for this Build was deleted before the Build completed.'' \<and>
               Message build' \<noteq> [] \<and>
               CompletionTimestamp build' = Some now \<and>
               call_Update (bpdc_BuildUpdater bc) (Namespace build) build' s = (u, s') \<and>
               calls s' = calls s @ [CallUpdate (Namespace build) build'] \<and>
               r = map_option (\<lambda>e. Errorf (''Failed to update build '' @ Name build @ '': '' @
                                          errorString e)) u))"
proof (intro conjI impI)
  assume "Status build \<in> {BuildStatusComplete, BuildStatusFailed, BuildStatusError,
                          BuildStatusCancelled}"
  with assms show "HandleBuildPodDeletion bc now pod s = (None, Some build, s)"
    by (auto simp: HandleBuildPodDeletion_def IsBuildComplete_def)
next
  assume live: "Status build \<in> {BuildStatusNew, BuildStatusPending, BuildStatusRunning}"
  let ?b = "build\<lparr>Status := BuildStatusError, Message := podDeletedMessage,
                   CompletionTimestamp := Some now\<rparr>"
  obtain u s' where upd: "call_Update (bpdc_BuildUpdater bc) (Namespace build) ?b s = (u, s')"
    by (cases "call_Update (bpdc_BuildUpdater bc) (Namespace build) ?b s") auto
  from live have nc: "\<not> IsBuildComplete build" "Status build \<noteq> BuildStatusError"
    by (auto simp: IsBuildComplete_def)
  have run: "HandleBuildPodDeletion bc now pod s =
      (map_option (\<lambda>e. Errorf (''Failed to update build '' @ Name build @ '': '' @
                                          errorString e)) u, Some ?b, s')"
    using assms nc upd by (cases u) (simp_all add: HandleBuildPodDeletion_def Let_def)
  have props: "Status ?b = BuildStatusError"
    "Message ?b = ''The Pod for this Build was deleted before the Build completed.''"
    "Message ?b \<noteq> []" "CompletionTimestamp ?b = Some now"
    by (simp_all add: podDeletedMessage_def)
  from run props upd call_Update_calls [OF upd]
  show "\<exists>r build' u s'.
               HandleBuildPodDeletion bc now pod s = (r, Some build', s') \<and>
               Status build' = BuildStatusError \<and>
               Message build' = ''The Pod for this Build was deleted before the Build completed.'' \<and>
               Message build' \<noteq> [] \<and>
               CompletionTimestamp build' = Some now \<and>
               call_Update (bpdc_BuildUpdater bc) (Namespace build) build' s = (u, s') \<and>
               calls s' = calls s @ [CallUpdate (Namespace build) build'] \<and>
               r = map_option (\<lambda>e. Errorf (''Failed to update build '' @ Name build @ '': '' @
                                          errorString e)) u"
    by simp
qed

theorem HandleBuildPodDeletion_found_witness:
  "HandleBuildPodDeletion (storePodDeleteController (\<lambda>p. Inr (Some bComplete)) update1) 7 pod1 s0 =
     (None, Some bComplete, s0) \<and>
   (\<exists>build' s'.
      HandleBuildPodDeletion (storePodDeleteController (\<lambda>p. Inr (Some bRunning)) update1) 7 pod1 s0 =
        (None, Some build', s') \<and>
      Status build' = BuildStatusError \<and> Message build' \<noteq> [] \<and>
      CompletionTimestamp build' = Some 7 \<and> calls s' = [CallUpdate ''ns'' build'])"
  using HandleBuildPodDeletion_found [of "storePodDeleteController (\<lambda>p. Inr (Some bComplete)) update1"
      pod1 s0 bComplete 7]
    HandleBuildPodDeletion_found [of "storePodDeleteController (\<lambda>p. Inr (Some bRunning)) update1"
      pod1 s0 bRunning 7]
  by (auto simp: storePodDeleteController_def bComplete_def bRunning_def b1_def s0_def
      call_Update_def update1_def)

text \<open>
  Claim C1, at a Complete build whose pod is reported Running: \<open>HandlePod\<close> sets the
  status to Running, stamps the start timestamp again and persists the build.
\<close>

theorem HandlePod_leaves_terminal_status:
  "IsBuildComplete bComplete \<and>
   HandlePod (storePodController (\<lambda>p. Inr (Some bComplete)) update1) 7 pod1
       \<lparr>world = [pod1], calls = []\<rparr> =
     (None, Some (bComplete\<lparr>Status := BuildStatusRunning, StartTimestamp := Some 7\<rparr>),
      \<lparr>world = [pod1],
       calls = [CallUpdate ''ns'' (bComplete\<lparr>Status := BuildStatusRunning,
                                            StartTimestamp := Some 7\<rparr>)]\<rparr>)"
  by (simp add: HandlePod_def storePodController_def bComplete_def b1_def pod1_def
      podNextStatus_def stampStatus_def IsBuildComplete_def call_Update_def update1_def Let_def)

text \<open>
  Claim C2, at a New build with the cancellation flag set: \<open>HandleBuild\<close> moves the
  build to Cancelled and persists it with no completion timestamp.
\<close>

theorem HandleBuild_Cancelled_no_CompletionTimestamp:
  "HandleBuild (storeController streams1 strategy1 update1) (b1\<lparr>Cancelled := True\<rparr>) s0 =
     (None, b1\<lparr>Cancelled := True, Status := BuildStatusCancelled\<rparr>,
      \<lparr>world = [], calls = [CallUpdate ''ns'' (b1\<lparr>Cancelled := True, Status := BuildStatusCancelled\<rparr>)]\<rparr>) \<and>
   CompletionTimestamp (b1\<lparr>Cancelled := True, Status := BuildStatusCancelled\<rparr>) = None"
  by (simp add: HandleBuild_def nextBuildStatus_def storeController_def b1_def s0_def
      call_Update_def update1_def)

subsection \<open>Redelivery over the pod store\<close>

lemma store_resolveOutput:
  assumes "resolveOutput (storeController streams strategy update) build t = (r, t')"
  shows "world t' = world t \<and>
         (\<forall>u. fst (resolveOutput (storeController streams strategy update) build u) = r)"
  using assms
  by (auto simp: resolveOutput_def storeController_def call_GetImageStream_def Let_def
      split: option.splits sum.splits if_splits)

lemma podCount_append:
  "podCount (ps @ [q]) ns n = podCount ps ns n + (if podKey q = (ns, n) then 1 else 0)"
  by (simp add: podCount_def)

text \<open>The admission path over the pod store, once the destination is resolved and the
  strategy has produced a pod.\<close>

lemma store_nextBuildStatus:
  assumes "\<not> Cancelled build"
    and "resolveOutput (storeController streams strategy update) build t = (Inr spec, t1)"
    and "strategy (setPending build spec) = Inr p"
  shows "\<exists>t'. nextBuildStatus (storeController streams strategy update) build t =
           (None, setPending build spec, t') \<and>
         world t' = snd (storeCreatePod (Namespace build) p (world t)) \<and>
         calls t' = calls t1 @ [CallCreateBuildPod (setPending build spec),
                                CallCreatePod (Namespace build) p]"
proof -
  from store_resolveOutput [OF assms(2)] have w1: "world t1 = world t" by simp
  have ns: "Namespace (setPending build spec) = Namespace build"
    by (simp add: setPending_def)
  show ?thesis
    using assms w1 ns
    by (simp add: nextBuildStatus_def Let_def storeController_def call_CreateBuildPod_def
        call_CreatePod_def storePodManager_def storeCreatePod_def)
qed


lemma podCount_absent:
  "(ns, n) \<notin> podKey ` set ps \<Longrightarrow> podCount ps ns n = 0"
  by (induction ps) (auto simp: podCount_def)

lemma distinct_podCount_le:
  "distinct (map podKey ps) \<Longrightarrow> podCount ps ns n \<le> 1"
proof (induction ps)
  case Nil
  then show ?case by (simp add: podCount_def)
next
  case (Cons q ps)
  show ?case
  proof (cases "podKey q = (ns, n)")
    case True
    with Cons.prems have "(ns, n) \<notin> podKey ` set ps" by auto
    from podCount_absent [OF this] True show ?thesis by (simp add: podCount_def)
  next
    case False
    with Cons show ?thesis by (simp add: podCount_def)
  qed
qed

lemma store_HandleBuild_success:
  assumes "Status build = BuildStatusNew" and "\<not> Cancelled build"
    and "HandleBuild (storeController streams strategy update) build s = (None, build1, s1)"
  shows "\<exists>spec p s'. resolveOutput (storeController streams strategy update) build s = (Inr spec, s') \<and>
           build1 = setPending build spec \<and> strategy build1 = Inr p \<and>
           world s1 = snd (storeCreatePod (Namespace build) p (world s))"
proof -
  obtain ro s' where ro: "resolveOutput (storeController streams strategy update) build s = (ro, s')"
    by (cases "resolveOutput (storeController streams strategy update) build s") auto
  show ?thesis
  proof (cases ro)
    case (Inl e)
    with assms ro show ?thesis by (simp add: HandleBuild_def nextBuildStatus_def)
  next
    case (Inr spec)
    note ro' = ro [unfolded Inr]
    show ?thesis
    proof (cases "strategy (setPending build spec)")
      case (Inl e)
      with assms ro' show ?thesis
        by (simp add: HandleBuild_def nextBuildStatus_def Let_def storeController_def
            call_CreateBuildPod_def)
    next
      case (Inr p)
      from store_nextBuildStatus [OF assms(2) ro' Inr] obtain t'
        where nb: "nextBuildStatus (storeController streams strategy update) build s =
            (None, setPending build spec, t')"
          and w: "world t' = snd (storeCreatePod (Namespace build) p (world s))"
        by blast
      from assms(1,3) nb have "build1 = setPending build spec"
        and "world s1 = world t'"
        by (auto simp: HandleBuild_def call_Update_def storeController_def split: prod.splits)
      with ro' Inr w show ?thesis by simp
    qed
  qed
qed

text \<open>
  With any collaborators: an AlreadyExists error of the pod creation ends
  \<open>nextBuildStatus\<close> without error.
\<close>

lemma nextBuildStatus_AlreadyExists:
  assumes "\<not> Cancelled build"
    and "resolveOutput bc build s = (Inr spec, s1)"
    and "CopyFailure bc (setPending build spec) = None"
    and "call_CreateBuildPod bc (setPending build spec) s1 = (Inr podSpec, s2)"
    and "call_CreatePod (PodManager bc) (Namespace build) podSpec s2 = (Inl e, s3)"
    and "IsAlreadyExists e"
  shows "nextBuildStatus bc build s = (None, setPending build spec, s3)"
  using assms by (simp add: nextBuildStatus_def Let_def setPending_def)


text \<open>
  Claim C3. Over the pod store, with at most one pod per namespace and name: when
  \<open>HandleBuild\<close> has handled a New build that is not cancelled without error, so that
  its pod exists, handling the same New build again returns no error and leaves the
  pods as they are. The second pod creation fails with AlreadyExists, and exactly one
  pod of the build's namespace has the name the strategy gave.
\<close>

theorem HandleBuild_redelivery_one_pod:
  assumes "Status build = BuildStatusNew"
    and "\<not> Cancelled build"
    and "distinct (map podKey (world s))"
    and "HandleBuild (storeController streams strategy update) build s = (None, build1, s1)"
  shows "\<exists>p e build2 s2.
           strategy build1 = Inr p \<and>
           storeCreatePod (Namespace build) p (world s1) = (Inl e, world s1) \<and>
           IsAlreadyExists e \<and>
           HandleBuild (storeController streams strategy update) build s1 = (None, build2, s2) \<and>
           world s2 = world s1 \<and>
           podCount (world s2) (Namespace build) (pod_Name p) = 1"
proof -
  from store_HandleBuild_success [OF assms(1,2,4)] obtain spec p s'
    where ro: "resolveOutput (storeController streams strategy update) build s = (Inr spec, s')"
      and b1: "build1 = setPending build spec" and st: "strategy build1 = Inr p"
      and w1: "world s1 = snd (storeCreatePod (Namespace build) p (world s))"
    by blast
  have cnt: "podCount (world s1) (Namespace build) (pod_Name p) = 1"
  proof (cases "podCount (world s) (Namespace build) (pod_Name p) = 0")
    case True
    with w1 show ?thesis by (simp add: storeCreatePod_def podCount_append podKey_def)
  next
    case False
    have "podCount (world s) (Namespace build) (pod_Name p) \<le> 1"
      using assms(3) by (rule distinct_podCount_le)
    with False w1 show ?thesis by (simp add: storeCreatePod_def)
  qed
  from cnt have ex: "storeCreatePod (Namespace build) p (world s1) =
      (Inl (Err StatusReasonAlreadyExists (''pod '' @ pod_Name p @ '' already exists'')), world s1)"
    by (simp add: storeCreatePod_def)
  from store_resolveOutput [OF ro]
  have "fst (resolveOutput (storeController streams strategy update) build s1) = Inr spec"
    by simp
  then obtain t1
    where ro1: "resolveOutput (storeController streams strategy update) build s1 = (Inr spec, t1)"
    by (cases "resolveOutput (storeController streams strategy update) build s1") simp
  from store_nextBuildStatus [OF assms(2) ro1 st [unfolded b1]] ex obtain t'
    where nb: "nextBuildStatus (storeController streams strategy update) build s1 =
        (None, setPending build spec, t')"
      and w: "world t' = world s1"
    by auto
  obtain s2 where hb: "HandleBuild (storeController streams strategy update) build s1 =
      (None, setPending build spec, s2)" and w2: "world s2 = world t'"
    using assms(1) nb
    by (auto simp: HandleBuild_def call_Update_def storeController_def split: prod.splits)
  from st ex hb w2 w cnt show ?thesis by simp
qed


theorem HandleBuild_redelivery_one_pod_witness:
  "\<exists>build1 s1 build2 s2.
     HandleBuild (storeController streams1 strategy1 update1) b1 s0 = (None, build1, s1) \<and>
     HandleBuild (storeController streams1 strategy1 update1) b1 s1 = (None, build2, s2) \<and>
     world s2 = world s1 \<and> podCount (world s2) ''ns'' ''b1'' = 1 \<and> length (world s2) = 1"
proof -
  let ?bc = "storeController streams1 strategy1 update1"
  obtain r build1 s1 where run: "HandleBuild ?bc b1 s0 = (r, build1, s1)"
    by (cases "HandleBuild ?bc b1 s0") auto
  have ev: "r = None" "Name build1 = ''b1''" "length (world s1) = 1"
    using run
    by (auto simp: HandleBuild_def nextBuildStatus_def resolveOutput_def call_GetImageStream_def
        call_CreateBuildPod_def call_CreatePod_def call_Update_def storeController_def
        storePodManager_def storeCreatePod_def podCount_def setPending_def composeSpec_def
        streams1_def strategy1_def update1_def b1_def s0_def Let_def)
  have pre: "Status b1 = BuildStatusNew" "\<not> Cancelled b1" "distinct (map podKey (world s0))"
    by (simp_all add: b1_def s0_def)
  from HandleBuild_redelivery_one_pod [OF pre run [unfolded ev(1)]] obtain p e build2 s2
    where "strategy1 build1 = Inr p"
      and "HandleBuild ?bc b1 s1 = (None, build2, s2)"
      and "world s2 = world s1"
      and "podCount (world s2) (Namespace b1) (pod_Name p) = 1"
    by blast
  with run ev show ?thesis
    by (auto simp: strategy1_def b1_def)
qed

subsection \<open>Terminal statuses in the other operations\<close>

text \<open>
  \<open>HandleBuild\<close>, \<open>CancelBuild\<close>, \<open>HandleBuildPodDeletion\<close>, and \<open>HandlePod\<close> on a
  build with the cancellation flag set, leave a build with a terminal status as it is.
\<close>

lemma HandleBuild_keeps_terminal:
  "IsBuildComplete build \<Longrightarrow> HandleBuild bc build s = (None, build, s)"
  by (auto simp: HandleBuild_def IsBuildComplete_def)

lemma CancelBuild_keeps_terminal:
  "IsBuildComplete build \<Longrightarrow> CancelBuild bc now build pod s = (None, build, s)"
  by (auto simp: CancelBuild_def IsBuildComplete_def isBuildCancellable_def)

lemma HandleBuildPodDeletion_keeps_terminal:
  "bpdc_BuildStore bc pod (world s) = Inr (Some build) \<Longrightarrow> IsBuildComplete build \<Longrightarrow>
   HandleBuildPodDeletion bc now pod s = (None, Some build, s)"
  by (simp add: HandleBuildPodDeletion_def)

lemma HandlePod_cancelled_keeps_terminal:
  "bpc_BuildStore bc pod (world s) = Inr (Some build) \<Longrightarrow> Cancelled build \<Longrightarrow>
   IsBuildComplete build \<Longrightarrow> HandlePod bc now pod s = (None, Some build, s)"
  by (simp add: HandlePod_def CancelBuild_keeps_terminal)

text \<open>
  \<open>CancelBuild\<close> on a cancellable build whose pod is deleted, or already gone, sets
  the completion timestamp together with the status Cancelled.
\<close>

lemma CancelBuild_stamps:
  assumes "isBuildCancellable build"
    and "call_DeletePod (bpc_PodManager bc) (Namespace build) pod s = (d, s1)"
    and "case d of None \<Rightarrow> True | Some e \<Rightarrow> IsNotFound e"
  shows "\<exists>r s2. CancelBuild bc now build pod s =
           (r, build\<lparr>Status := BuildStatusCancelled, CompletionTimestamp := Some now\<rparr>, s2)"
proof -
  let ?b = "build\<lparr>Status := BuildStatusCancelled, CompletionTimestamp := Some now\<rparr>"
  obtain u s2 where "call_Update (bpc_BuildUpdater bc) (Namespace ?b) ?b s1 = (u, s2)"
    by (cases "call_Update (bpc_BuildUpdater bc) (Namespace ?b) ?b s1") auto
  with assms show ?thesis
    by (cases u; cases d) (simp_all add: CancelBuild_def Let_def)
qed

text \<open>
  \<open>HandleBuild\<close> on a New build with the cancellation flag set changes the status
  only: whatever the collaborators, the completion timestamp stays as it was.
\<close>

lemma HandleBuild_cancelled_flag:
  assumes "Status build = BuildStatusNew" and "Cancelled build"
  shows "\<exists>s'. HandleBuild bc build s = (None, build\<lparr>Status := BuildStatusCancelled\<rparr>, s') \<and>
           calls s' = calls s @ [CallUpdate (Namespace build) (build\<lparr>Status := BuildStatusCancelled\<rparr>)]"
  using assms
  by (auto simp: HandleBuild_def nextBuildStatus_def call_Update_def split: prod.splits)

end
